theory Spec2Isabelle
  imports
    Complex_Main
    "HOL-Library.Multiset"
    "HOL-Library.Char_ord"
    "HOL-Library.List_Lexorder"
begin

section \<open>Data model\<close>

text \<open>
  The recipe application keeps three tables: users, tags and recipes. A row refers to
  its owner through the owner's primary key, which is also what \<^verbatim>\<open>request.user\<close>
  stands for in the views.
\<close>

type_synonym user_id = nat

text \<open>
  Modelled from the spec: the model declarations of \<^verbatim>\<open>core/models.py\<close> are not part
  of the sources. Section 3 gives Tag as \<open>{id, name, owner reference}\<close> and Recipe as
  \<open>{id, owner reference, title, time_minutes, price, description, link, tags}\<close>; the
  tests build rows with exactly these fields (\<^verbatim>\<open>create_recipe\<close>,
  \<^verbatim>\<open>Tag.objects.create(user=..., name=...)\<close>). The many-to-many relation is kept
  as the set of tag ids attached to a recipe. Prices are Python \<^verbatim>\<open>Decimal\<close>s,
  exact rationals here.
\<close>

record tag =
  tag_id :: nat
  tag_name :: string
  tag_user :: user_id

record recipe =
  recipe_id :: nat
  recipe_user :: user_id
  title :: string
  time_minutes :: int
  price :: rat
  description :: string
  link :: string
  tags :: "nat set"

text \<open>
  Modelled from the spec: the user model of \<^verbatim>\<open>core/models.py\<close> is not part of the
  sources. Section 3 gives User as \<open>{email, password (hashed), name}\<close>, the three fields
  \<^verbatim>\<open>UserSerializer.Meta.fields\<close> lists.
\<close>

record user =
  email :: string
  password :: string
  name :: string

text \<open>The database as the views see it: the recipe table and the tag table.\<close>

record db =
  recipes :: "recipe list"
  tag_rows :: "tag list"

section \<open>The object-relational mapper\<close>

text \<open>
  \<^verbatim>\<open>queryset.filter(user=u)\<close> keeps the rows of one owner, and
  \<^verbatim>\<open>order_by('-key')\<close> sorts in descending order of the key. Names are compared
  as character lists, lexicographically by character code.
\<close>

definition filter_user :: "('a \<Rightarrow> user_id) \<Rightarrow> user_id \<Rightarrow> 'a list \<Rightarrow> 'a list" where
  "filter_user owner u rows = filter (\<lambda>r. owner r = u) rows"

definition order_by_desc :: "('a \<Rightarrow> 'k::linorder) \<Rightarrow> 'a list \<Rightarrow> 'a list" where
  "order_by_desc k rows = rev (sort_key k rows)"

text \<open>A fresh primary key: one more than the largest key of the table.\<close>

definition next_id :: "nat list \<Rightarrow> nat" where
  "next_id ids = Suc (fold max ids 0)"

section \<open>The REST framework: exceptions, authentication and permissions\<close>

datatype api_exception = ValidationError | NotAuthenticated | PermissionDenied | NotFound

datatype authentication_class = TokenAuthentication | SessionAuthentication

datatype permission_class = IsAuthenticated | AllowAny

text \<open>
  Token authentication answers a failed login with a \<^verbatim>\<open>WWW-Authenticate\<close> header,
  session authentication has none.
\<close>

fun authenticate_header :: "authentication_class \<Rightarrow> string option" where
  "authenticate_header TokenAuthentication = Some ''Token''"
| "authenticate_header SessionAuthentication = None"

text \<open>
  The status of an exception's response. A request that is not authenticated is
  answered with 401 when the first authentication class has a header to challenge
  with, and with 403 otherwise.
\<close>

definition get_authenticate_header :: "authentication_class list \<Rightarrow> string option" where
  "get_authenticate_header auths =
     (case auths of [] \<Rightarrow> None | a # _ \<Rightarrow> authenticate_header a)"

fun status_code :: "authentication_class list \<Rightarrow> api_exception \<Rightarrow> nat" where
  "status_code auths ValidationError = 400"
| "status_code auths NotAuthenticated =
     (if get_authenticate_header auths = None then 403 else 401)"
| "status_code auths PermissionDenied = 403"
| "status_code auths NotFound = 404"

text \<open>
  \<^verbatim>\<open>request.user\<close> is \<open>None\<close> when no authenticator succeeded (the anonymous
  user) and the caller's key otherwise.
\<close>

fun has_permission :: "permission_class \<Rightarrow> user_id option \<Rightarrow> bool" where
  "has_permission IsAuthenticated caller = (caller \<noteq> None)"
| "has_permission AllowAny caller = True"

definition permission_denied :: "authentication_class list \<Rightarrow> user_id option \<Rightarrow> api_exception" where
  "permission_denied auths caller =
     (if auths \<noteq> [] \<and> caller = None then NotAuthenticated else PermissionDenied)"

text \<open>
  \<^verbatim>\<open>APIView.initial\<close>: every permission class must grant the request before the
  handler runs. What the handlers of this application need from it is the caller, whom
  they filter on. Both view sets require authentication, so no handler of theirs runs
  for an anonymous request; where other permission classes would grant one, there is
  no user to filter on and the model answers with a denial.
\<close>

definition initial ::
  "authentication_class list \<Rightarrow> permission_class list \<Rightarrow> user_id option \<Rightarrow> api_exception + user_id" where
  "initial auths perms caller =
     (if list_all (\<lambda>p. has_permission p caller) perms
      then (case caller of Some u \<Rightarrow> Inr u | None \<Rightarrow> Inl PermissionDenied)
      else Inl (permission_denied auths caller))"

text \<open>
  \<^verbatim>\<open>get_object\<close>: the row with the requested primary key in the view's queryset, or
  404. \<^verbatim>\<open>IsAuthenticated\<close> has no object-level check.
\<close>

definition get_object :: "('a \<Rightarrow> nat) \<Rightarrow> 'a list \<Rightarrow> nat \<Rightarrow> api_exception + 'a" where
  "get_object pk_of queryset pk =
     (case find (\<lambda>r. pk_of r = pk) queryset of
        None \<Rightarrow> Inl NotFound
      | Some r \<Rightarrow> Inr r)"

section \<open>The views of recipe/views.py\<close>

definition RecipeViewSet_authentication_classes :: "authentication_class list" where
  "RecipeViewSet_authentication_classes = [TokenAuthentication]"

definition RecipeViewSet_permission_classes :: "permission_class list" where
  "RecipeViewSet_permission_classes = [IsAuthenticated]"

definition TagViewSet_authentication_classes :: "authentication_class list" where
  "TagViewSet_authentication_classes = [TokenAuthentication]"

definition TagViewSet_permission_classes :: "permission_class list" where
  "TagViewSet_permission_classes = [IsAuthenticated]"

text \<open>
  \<^verbatim>\<open>return self.queryset.filter(user=self.request.user).order_by('-id')\<close>
\<close>

definition RecipeViewSet_get_queryset :: "user_id \<Rightarrow> db \<Rightarrow> recipe list" where
  "RecipeViewSet_get_queryset u s =
     order_by_desc recipe_id (filter_user recipe_user u (recipes s))"

text \<open>
  \<^verbatim>\<open>return self.queryset.filter(user=self.request.user).order_by('-name')\<close>
\<close>

definition TagViewSet_get_queryset :: "user_id \<Rightarrow> db \<Rightarrow> tag list" where
  "TagViewSet_get_queryset u s =
     order_by_desc tag_name (filter_user tag_user u (tag_rows s))"

text \<open>
  \<^verbatim>\<open>
  def get_serializer_class(self):
      if self.action == 'list':
          return serializers.RecipeSerializer
      return self.serializer_class
  \<close>
  with \<^verbatim>\<open>serializer_class = serializers.RecipeDetailSerializer\<close>.
\<close>

datatype serializer_class = RecipeSerializer | RecipeDetailSerializer | TagSerializer

definition RecipeViewSet_serializer_class :: serializer_class where
  "RecipeViewSet_serializer_class = RecipeDetailSerializer"

definition RecipeViewSet_get_serializer_class :: "string \<Rightarrow> serializer_class" where
  "RecipeViewSet_get_serializer_class action =
     (if action = ''list'' then RecipeSerializer else RecipeViewSet_serializer_class)"

definition TagViewSet_serializer_class :: serializer_class where
  "TagViewSet_serializer_class = TagSerializer"

definition RecipeViewSet_initial :: "user_id option \<Rightarrow> api_exception + user_id" where
  "RecipeViewSet_initial caller =
     initial RecipeViewSet_authentication_classes RecipeViewSet_permission_classes caller"

definition TagViewSet_initial :: "user_id option \<Rightarrow> api_exception + user_id" where
  "TagViewSet_initial caller =
     initial TagViewSet_authentication_classes TagViewSet_permission_classes caller"

text \<open>The list and retrieve actions of the model view set, and the tag list.\<close>

definition RecipeViewSet_list :: "user_id option \<Rightarrow> db \<Rightarrow> api_exception + recipe list" where
  "RecipeViewSet_list caller s =
     (case RecipeViewSet_initial caller of
        Inl e \<Rightarrow> Inl e
      | Inr u \<Rightarrow> Inr (RecipeViewSet_get_queryset u s))"

definition RecipeViewSet_retrieve :: "user_id option \<Rightarrow> nat \<Rightarrow> db \<Rightarrow> api_exception + recipe" where
  "RecipeViewSet_retrieve caller pk s =
     (case RecipeViewSet_initial caller of
        Inl e \<Rightarrow> Inl e
      | Inr u \<Rightarrow> get_object recipe_id (RecipeViewSet_get_queryset u s) pk)"

definition TagViewSet_list :: "user_id option \<Rightarrow> db \<Rightarrow> api_exception + tag list" where
  "TagViewSet_list caller s =
     (case TagViewSet_initial caller of
        Inl e \<Rightarrow> Inl e
      | Inr u \<Rightarrow> Inr (TagViewSet_get_queryset u s))"

section \<open>The tag store and the recipe reconciler\<close>

text \<open>
  Modelled from the spec: \<^verbatim>\<open>recipe/serializers.py\<close>, which holds the recipe and tag
  serializers and their tag reconciliation, is not part of the sources. Section 4.2:
  for each requested tag name, look up an existing tag owned by the same user with
  that exact name; if found, attach it; if not found, create a new tag owned by the
  user and attach it. The lookup takes the first row of that owner and name.
\<close>

definition lookup_tag :: "user_id \<Rightarrow> string \<Rightarrow> tag list \<Rightarrow> tag option" where
  "lookup_tag owner nm ts = find (\<lambda>t. tag_user t = owner \<and> tag_name t = nm) ts"

text \<open>
  Modelled from the spec: section 3 names the pair (name, owner) as the natural key of
  a tag for reconciliation; the model declaration is in the missing
  \<^verbatim>\<open>core/models.py\<close>.
\<close>

definition tag_key :: "tag \<Rightarrow> user_id \<times> string" where
  "tag_key t = (tag_user t, tag_name t)"

text \<open>
  Modelled from the spec: the tag store's get-or-create-by-name scoped to an owner
  (section 2), from the missing \<^verbatim>\<open>recipe/serializers.py\<close>. It returns the tag and
  the tag table, which has grown by one row when the tag was created.
\<close>

definition get_or_create_tag :: "user_id \<Rightarrow> string \<Rightarrow> tag list \<Rightarrow> tag \<times> tag list" where
  "get_or_create_tag owner nm ts =
     (case lookup_tag owner nm ts of
        Some t \<Rightarrow> (t, ts)
      | None \<Rightarrow>
          (let t = \<lparr>tag_id = next_id (map tag_id ts), tag_name = nm, tag_user = owner\<rparr>
           in (t, ts @ [t])))"

text \<open>
  Modelled from the spec: the loop of section 4.2 over the requested names, from the
  missing \<^verbatim>\<open>recipe/serializers.py\<close>. It returns the resolved tags in request
  order and the tag table after every creation.
\<close>

fun resolve_tags :: "user_id \<Rightarrow> string list \<Rightarrow> tag list \<Rightarrow> tag list \<times> tag list" where
  "resolve_tags owner [] ts = ([], ts)"
| "resolve_tags owner (nm # nms) ts =
     (case get_or_create_tag owner nm ts of
        (t, ts1) \<Rightarrow>
          (case resolve_tags owner nms ts1 of
             (rest, ts2) \<Rightarrow> (t # rest, ts2)))"

text \<open>
  Modelled from the spec: section 4.2, "after processing the full requested list, the
  recipe's tag set is replaced to exactly equal the resolved set", from the missing
  \<^verbatim>\<open>recipe/serializers.py\<close>.
\<close>

definition reconcile_tags :: "user_id \<Rightarrow> string list \<Rightarrow> recipe \<Rightarrow> tag list \<Rightarrow> recipe \<times> tag list" where
  "reconcile_tags owner nms r ts =
     (case resolve_tags owner nms ts of
        (resolved, ts1) \<Rightarrow> (r\<lparr>tags := tag_id ` set resolved\<rparr>, ts1))"

section \<open>The recipe store\<close>

text \<open>
  Modelled from the spec: the validated data of the recipe serializer in the missing
  \<^verbatim>\<open>recipe/serializers.py\<close>, with the fields of section 3. A create carries
  every scalar field; a partial or full update carries the fields the request
  supplied. Section 6: the nested \<^verbatim>\<open>tags\<close> field is a list of \<open>{name}\<close>
  objects, here the list of requested names, when the request has one.
\<close>

record recipe_fields =
  f_title :: string
  f_time_minutes :: int
  f_price :: rat
  f_description :: string
  f_link :: string
  f_tags :: "string list option"

record recipe_patch =
  p_title :: "string option"
  p_time_minutes :: "int option"
  p_price :: "rat option"
  p_description :: "string option"
  p_link :: "string option"
  p_tags :: "string list option"

text \<open>
  Modelled from the spec: the recipe serializer's create of the missing
  \<^verbatim>\<open>recipe/serializers.py\<close>. Section 4.3: create(owner, fields) gives a new recipe
  with empty tag set; section 4.2 then reconciles the requested tags on create.
\<close>

definition RecipeSerializer_create :: "user_id \<Rightarrow> recipe_fields \<Rightarrow> db \<Rightarrow> recipe \<times> db" where
  "RecipeSerializer_create owner d s =
     (let r0 = \<lparr>recipe_id = next_id (map recipe_id (recipes s)), recipe_user = owner,
                title = f_title d, time_minutes = f_time_minutes d, price = f_price d,
                description = f_description d, link = f_link d, tags = {}\<rparr>
      in case (case f_tags d of
                 None \<Rightarrow> (r0, tag_rows s)
               | Some nms \<Rightarrow> reconcile_tags owner nms r0 (tag_rows s)) of
           (r1, ts1) \<Rightarrow> (r1, \<lparr>recipes = recipes s @ [r1], tag_rows = ts1\<rparr>))"

text \<open>
  Modelled from the spec: the field assignment of an update, from the missing
  \<^verbatim>\<open>recipe/serializers.py\<close>. Section 4.3: an update applies only supplied fields.
\<close>

definition apply_fields :: "recipe_patch \<Rightarrow> recipe \<Rightarrow> recipe" where
  "apply_fields p r =
     r\<lparr>title := (case p_title p of None \<Rightarrow> title r | Some v \<Rightarrow> v),
       time_minutes := (case p_time_minutes p of None \<Rightarrow> time_minutes r | Some v \<Rightarrow> v),
       price := (case p_price p of None \<Rightarrow> price r | Some v \<Rightarrow> v),
       description := (case p_description p of None \<Rightarrow> description r | Some v \<Rightarrow> v),
       link := (case p_link p of None \<Rightarrow> link r | Some v \<Rightarrow> v)\<rparr>"

text \<open>
  Modelled from the spec: the recipe serializer's update of the missing
  \<^verbatim>\<open>recipe/serializers.py\<close>. Section 4.3: it leaves tags untouched unless a tags
  field is explicitly supplied, and section 4.2 reconciles them when one is.
\<close>

definition RecipeSerializer_update :: "user_id \<Rightarrow> recipe \<Rightarrow> recipe_patch \<Rightarrow> tag list \<Rightarrow> recipe \<times> tag list" where
  "RecipeSerializer_update owner r p ts =
     (case (case p_tags p of
              None \<Rightarrow> (r, ts)
            | Some nms \<Rightarrow> reconcile_tags owner nms r ts) of
        (r1, ts1) \<Rightarrow> (apply_fields p r1, ts1))"

text \<open>
  Modelled from the spec: the tag serializer of the missing
  \<^verbatim>\<open>recipe/serializers.py\<close>. Section 8: patching a tag's name updates only that
  field.
\<close>

definition TagSerializer_update :: "tag \<Rightarrow> string option \<Rightarrow> tag" where
  "TagSerializer_update t nm = (case nm of None \<Rightarrow> t | Some v \<Rightarrow> t\<lparr>tag_name := v\<rparr>)"

text \<open>Saving a row replaces the row of its primary key; deleting a row removes it.\<close>

definition save_row :: "('a \<Rightarrow> nat) \<Rightarrow> 'a \<Rightarrow> 'a list \<Rightarrow> 'a list" where
  "save_row pk_of r rows = map (\<lambda>x. if pk_of x = pk_of r then r else x) rows"

definition delete_row :: "('a \<Rightarrow> nat) \<Rightarrow> nat \<Rightarrow> 'a list \<Rightarrow> 'a list" where
  "delete_row pk_of pk rows = filter (\<lambda>x. pk_of x \<noteq> pk) rows"

section \<open>The mutating actions of the view sets\<close>

text \<open>
  \<^verbatim>\<open>perform_create\<close> saves the serializer with \<^verbatim>\<open>user=self.request.user\<close>.
\<close>

definition RecipeViewSet_create :: "user_id option \<Rightarrow> recipe_fields \<Rightarrow> db \<Rightarrow> (api_exception + recipe) \<times> db" where
  "RecipeViewSet_create caller d s =
     (case RecipeViewSet_initial caller of
        Inl e \<Rightarrow> (Inl e, s)
      | Inr u \<Rightarrow> (case RecipeSerializer_create u d s of (r, s1) \<Rightarrow> (Inr r, s1)))"

text \<open>
  Update and partial update fetch the object through the view's queryset, run the
  serializer on it and save the result. Destroy fetches it the same way and deletes it.
\<close>

definition RecipeViewSet_update :: "user_id option \<Rightarrow> nat \<Rightarrow> recipe_patch \<Rightarrow> db \<Rightarrow> (api_exception + recipe) \<times> db" where
  "RecipeViewSet_update caller pk p s =
     (case RecipeViewSet_initial caller of
        Inl e \<Rightarrow> (Inl e, s)
      | Inr u \<Rightarrow>
          (case get_object recipe_id (RecipeViewSet_get_queryset u s) pk of
             Inl e \<Rightarrow> (Inl e, s)
           | Inr r \<Rightarrow>
               (case RecipeSerializer_update u r p (tag_rows s) of
                  (r1, ts1) \<Rightarrow>
                    (Inr r1, \<lparr>recipes = save_row recipe_id r1 (recipes s), tag_rows = ts1\<rparr>))))"

definition RecipeViewSet_destroy :: "user_id option \<Rightarrow> nat \<Rightarrow> db \<Rightarrow> (api_exception + unit) \<times> db" where
  "RecipeViewSet_destroy caller pk s =
     (case RecipeViewSet_initial caller of
        Inl e \<Rightarrow> (Inl e, s)
      | Inr u \<Rightarrow>
          (case get_object recipe_id (RecipeViewSet_get_queryset u s) pk of
             Inl e \<Rightarrow> (Inl e, s)
           | Inr r \<Rightarrow> (Inr (), s\<lparr>recipes := delete_row recipe_id (recipe_id r) (recipes s)\<rparr>)))"

definition TagViewSet_update :: "user_id option \<Rightarrow> nat \<Rightarrow> string option \<Rightarrow> db \<Rightarrow> (api_exception + tag) \<times> db" where
  "TagViewSet_update caller pk nm s =
     (case TagViewSet_initial caller of
        Inl e \<Rightarrow> (Inl e, s)
      | Inr u \<Rightarrow>
          (case get_object tag_id (TagViewSet_get_queryset u s) pk of
             Inl e \<Rightarrow> (Inl e, s)
           | Inr t \<Rightarrow>
               (let t1 = TagSerializer_update t nm
                in (Inr t1, s\<lparr>tag_rows := save_row tag_id t1 (tag_rows s)\<rparr>))))"

text \<open>Deleting a tag also deletes its rows of the many-to-many relation.\<close>

definition TagViewSet_destroy :: "user_id option \<Rightarrow> nat \<Rightarrow> db \<Rightarrow> (api_exception + unit) \<times> db" where
  "TagViewSet_destroy caller pk s =
     (case TagViewSet_initial caller of
        Inl e \<Rightarrow> (Inl e, s)
      | Inr u \<Rightarrow>
          (case get_object tag_id (TagViewSet_get_queryset u s) pk of
             Inl e \<Rightarrow> (Inl e, s)
           | Inr t \<Rightarrow>
               (Inr (),
                \<lparr>recipes = map (\<lambda>r. r\<lparr>tags := tags r - {tag_id t}\<rparr>) (recipes s),
                 tag_rows = delete_row tag_id (tag_id t) (tag_rows s)\<rparr>)))"

subsection \<open>Every endpoint as one request handler\<close>

datatype request =
    RecipeList
  | RecipeRetrieve nat
  | RecipeCreate recipe_fields
  | RecipeUpdate nat recipe_patch
  | RecipeDestroy nat
  | TagList
  | TagUpdate nat "string option"
  | TagDestroy nat

datatype response_body =
    RecipeListBody "recipe list"
  | RecipeBody recipe
  | TagListBody "tag list"
  | TagBody tag
  | NoContent

fun dispatch :: "user_id option \<Rightarrow> request \<Rightarrow> db \<Rightarrow> (api_exception + response_body) \<times> db" where
  "dispatch caller RecipeList s = (map_sum id RecipeListBody (RecipeViewSet_list caller s), s)"
| "dispatch caller (RecipeRetrieve pk) s =
     (map_sum id RecipeBody (RecipeViewSet_retrieve caller pk s), s)"
| "dispatch caller (RecipeCreate d) s =
     (case RecipeViewSet_create caller d s of (res, s1) \<Rightarrow> (map_sum id RecipeBody res, s1))"
| "dispatch caller (RecipeUpdate pk p) s =
     (case RecipeViewSet_update caller pk p s of (res, s1) \<Rightarrow> (map_sum id RecipeBody res, s1))"
| "dispatch caller (RecipeDestroy pk) s =
     (case RecipeViewSet_destroy caller pk s of
        (res, s1) \<Rightarrow> (map_sum id (\<lambda>_. NoContent) res, s1))"
| "dispatch caller TagList s = (map_sum id TagListBody (TagViewSet_list caller s), s)"
| "dispatch caller (TagUpdate pk nm) s =
     (case TagViewSet_update caller pk nm s of (res, s1) \<Rightarrow> (map_sum id TagBody res, s1))"
| "dispatch caller (TagDestroy pk) s =
     (case TagViewSet_destroy caller pk s of
        (res, s1) \<Rightarrow> (map_sum id (\<lambda>_. NoContent) res, s1))"

text \<open>The recipe rows and the tag rows a response body shows.\<close>

fun body_recipes :: "response_body \<Rightarrow> recipe list" where
  "body_recipes (RecipeListBody rs) = rs"
| "body_recipes (RecipeBody r) = [r]"
| "body_recipes b = []"

fun body_tags :: "response_body \<Rightarrow> tag list" where
  "body_tags (TagListBody ts) = ts"
| "body_tags (TagBody t) = [t]"
| "body_tags b = []"

text \<open>The authentication classes that decide the status of a request's error.\<close>

fun request_authentication_classes :: "request \<Rightarrow> authentication_class list" where
  "request_authentication_classes TagList = TagViewSet_authentication_classes"
| "request_authentication_classes (TagUpdate pk nm) = TagViewSet_authentication_classes"
| "request_authentication_classes (TagDestroy pk) = TagViewSet_authentication_classes"
| "request_authentication_classes req = RecipeViewSet_authentication_classes"

section \<open>The serializers of user/serializers.py\<close>

text \<open>
  \<^verbatim>\<open>Meta.fields\<close> and \<^verbatim>\<open>Meta.extra_kwargs\<close> of the user serializer: the password
  is write-only and at least 5 characters long.
\<close>

definition UserSerializer_fields :: "string list" where
  "UserSerializer_fields = [''email'', ''password'', ''name'']"

definition write_only :: "string \<Rightarrow> bool" where
  "write_only f = (f = ''password'')"

definition min_length :: "string \<Rightarrow> nat" where
  "min_length f = (if f = ''password'' then 5 else 0)"

fun getattr_user :: "string \<Rightarrow> user \<Rightarrow> string" where
  "getattr_user f u =
     (if f = ''email'' then email u
      else if f = ''password'' then password u
      else if f = ''name'' then name u
      else [])"

fun setattr_user :: "string \<Rightarrow> string \<Rightarrow> user \<Rightarrow> user" where
  "setattr_user f v u =
     (if f = ''email'' then u\<lparr>email := v\<rparr>
      else if f = ''password'' then u\<lparr>password := v\<rparr>
      else if f = ''name'' then u\<lparr>name := v\<rparr>
      else u)"

text \<open>
  The serialized output of a user: every declared field that is not write-only, with
  its value.
\<close>

definition to_representation :: "user \<Rightarrow> (string \<times> string) list" where
  "to_representation u =
     map (\<lambda>f. (f, getattr_user f u)) (filter (\<lambda>f. \<not> write_only f) UserSerializer_fields)"

text \<open>
  Validated data hold values for declared fields only, each at least as long as the
  field's minimum length.
\<close>

definition validated :: "(string \<rightharpoonup> string) \<Rightarrow> bool" where
  "validated vd =
     (dom vd \<subseteq> set UserSerializer_fields
      \<and> list_all (\<lambda>f. case vd f of None \<Rightarrow> True | Some v \<Rightarrow> min_length f \<le> length v)
           UserSerializer_fields)"

text \<open>
  \<^verbatim>\<open>ModelSerializer.update\<close>: every item of the validated data is assigned to the
  attribute of its name, and the instance is saved.
\<close>

definition ModelSerializer_update :: "user \<Rightarrow> (string \<rightharpoonup> string) \<Rightarrow> user" where
  "ModelSerializer_update instance vd =
     fold (\<lambda>f u. case vd f of None \<Rightarrow> u | Some v \<Rightarrow> setattr_user f v u)
       UserSerializer_fields instance"

text \<open>
  \<^verbatim>\<open>user.set_password(raw)\<close> stores the hash of the raw password. The hasher is the
  framework's and is a parameter here.
\<close>

definition set_password :: "(string \<Rightarrow> string) \<Rightarrow> string \<Rightarrow> user \<Rightarrow> user" where
  "set_password make_password raw u = u\<lparr>password := make_password raw\<rparr>"

text \<open>
  \<^verbatim>\<open>
  def update(self, instance, validated_data):
      password = validated_data.pop('password', None)
      user = super().update(instance, validated_data)
      if password:
          user.set_password(password)
          user.save()
      return user
  \<close>
  A password that is the empty string is false in the test, as \<open>None\<close> is.
\<close>

definition UserSerializer_update :: "(string \<Rightarrow> string) \<Rightarrow> user \<Rightarrow> (string \<rightharpoonup> string) \<Rightarrow> user" where
  "UserSerializer_update make_password instance validated_data =
     (let pw = validated_data ''password'';
          rest = validated_data(''password'' := None);
          u = ModelSerializer_update instance rest
      in case pw of
           None \<Rightarrow> u
         | Some raw \<Rightarrow> if raw \<noteq> [] then set_password make_password raw u else u)"

subsection \<open>The authentication token serializer\<close>

text \<open>
  The attributes of a token request are a dictionary from field names to values; the
  validation adds the user object under the key \<^verbatim>\<open>user\<close>.
\<close>

datatype attr = Str string | UserObj user

text \<open>Python's truth of the result of \<^verbatim>\<open>attrs.get(key)\<close>.\<close>

fun truthy :: "attr option \<Rightarrow> bool" where
  "truthy None = False"
| "truthy (Some (Str v)) = (v \<noteq> [])"
| "truthy (Some (UserObj u)) = True"

text \<open>
  \<^verbatim>\<open>
  def validate(self, attrs):
      email = attrs.get('email')
      password = attrs.get("password")
      if not email or password is None:
          raise serializers.ValidationError()
      user = authenticate(self.context.get('request'), username=email, password=password)
      if not user:
          raise NotAuthenticated()
      attrs['user'] = user
      return attrs
  \<close>
  The credential check \<^verbatim>\<open>authenticate\<close> is the framework's and is a parameter.
\<close>

definition AuthTokenSerializer_validate ::
  "(attr \<Rightarrow> attr \<Rightarrow> user option) \<Rightarrow> (string \<rightharpoonup> attr) \<Rightarrow> api_exception + (string \<rightharpoonup> attr)" where
  "AuthTokenSerializer_validate authenticate attrs =
     (case (attrs ''email'', attrs ''password'') of
        (Some e, Some pw) \<Rightarrow>
          (if \<not> truthy (Some e) then Inl ValidationError
           else (case authenticate e pw of
                   None \<Rightarrow> Inl NotAuthenticated
                 | Some u \<Rightarrow> Inr (attrs(''user'' \<mapsto> UserObj u))))
      | _ \<Rightarrow> Inl ValidationError)"

section \<open>Sample data\<close>

text \<open>
  The rows the tests build: recipes with the defaults of \<^verbatim>\<open>create_recipe\<close> for two
  users, and tags of both users.
\<close>

definition sample_recipe :: "nat \<Rightarrow> user_id \<Rightarrow> string \<Rightarrow> recipe" where
  "sample_recipe i u t =
     \<lparr>recipe_id = i, recipe_user = u, title = t, time_minutes = 22, price = 21 / 4,
      description = ''This is a test recipe'', link = ''https://www.example.com'', tags = {}\<rparr>"

definition sample_tags :: "tag list" where
  "sample_tags =
     [\<lparr>tag_id = 1, tag_name = ''Vegan'', tag_user = 1\<rparr>,
      \<lparr>tag_id = 2, tag_name = ''tag1'', tag_user = 2\<rparr>,
      \<lparr>tag_id = 3, tag_name = ''Dinner'', tag_user = 1\<rparr>]"

definition sample_db :: db where
  "sample_db =
     \<lparr>recipes = [sample_recipe 1 1 ''Test Recipe1'', sample_recipe 2 2 ''Test Recipe2'',
                 sample_recipe 3 1 ''Test Recipe3''],
      tag_rows = sample_tags\<rparr>"

definition no_patch :: recipe_patch where
  "no_patch =
     \<lparr>p_title = None, p_time_minutes = None, p_price = None, p_description = None,
      p_link = None, p_tags = None\<rparr>"

definition sample_fields :: recipe_fields where
  "sample_fields =
     \<lparr>f_title = ''Sample Recipe'', f_time_minutes = 10, f_price = 7 / 2,
      f_description = ''This is a sample recipe'', f_link = ''https://www.examplerecipe.com'',
      f_tags = None\<rparr>"

definition sample_user :: user where
  "sample_user = \<lparr>email = ''user@example.com'', password = ''hash:testpass123'', name = ''Test''\<rparr>"

definition sample_hasher :: "string \<Rightarrow> string" where
  "sample_hasher raw = ''hash:'' @ raw"

definition sample_authenticate :: "attr \<Rightarrow> attr \<Rightarrow> user option" where
  "sample_authenticate e pw =
     (if e = Str ''user@example.com'' \<and> pw = Str ''testpass123'' then Some sample_user else None)"

section \<open>Properties of the scoped querysets\<close>

lemma initial_recipe_Some: "RecipeViewSet_initial (Some u) = Inr u"
  by (simp add: RecipeViewSet_initial_def initial_def RecipeViewSet_permission_classes_def)

lemma initial_tag_Some: "TagViewSet_initial (Some u) = Inr u"
  by (simp add: TagViewSet_initial_def initial_def TagViewSet_permission_classes_def)

lemma set_order_by_desc: "set (order_by_desc k rows) = set rows"
  by (simp add: order_by_desc_def)

lemma mset_order_by_desc: "mset (order_by_desc k rows) = mset rows"
  by (simp add: order_by_desc_def)

lemma sorted_order_by_desc:
  "sorted_wrt (\<lambda>a b. k a \<ge> k b) (order_by_desc k rows)"
proof -
  have "sorted (map k (sort_key k rows))"
    by simp
  then have "sorted_wrt (\<lambda>a b. k a \<le> k b) (sort_key k rows)"
    by (simp add: sorted_wrt_map)
  then show ?thesis
    by (simp add: order_by_desc_def sorted_wrt_rev)
qed

lemma set_recipe_queryset:
  "set (RecipeViewSet_get_queryset u s) = {r \<in> set (recipes s). recipe_user r = u}"
  by (simp add: RecipeViewSet_get_queryset_def set_order_by_desc filter_user_def)

lemma set_tag_queryset:
  "set (TagViewSet_get_queryset u s) = {t \<in> set (tag_rows s). tag_user t = u}"
  by (simp add: TagViewSet_get_queryset_def set_order_by_desc filter_user_def)

lemma get_object_in: "get_object pk_of q pk = Inr r \<Longrightarrow> r \<in> set q \<and> pk_of r = pk"
  by (auto simp: get_object_def find_Some_iff split: option.splits)

lemma get_object_NotFound:
  "(\<forall>r\<in>set q. pk_of r \<noteq> pk) \<Longrightarrow> get_object pk_of q pk = Inl NotFound"
  by (auto simp: get_object_def find_None_iff split: option.splits)

lemma distinct_pk_eq:
  "distinct (map pk_of rows) \<Longrightarrow> x \<in> set rows \<Longrightarrow> y \<in> set rows \<Longrightarrow> pk_of x = pk_of y \<Longrightarrow> x = y"
  by (meson distinct_map inj_onD)

subsection \<open>Sample evaluations\<close>

lemma sample_recipe_list:
  "RecipeViewSet_list (Some 1) sample_db
     = Inr [sample_recipe 3 1 ''Test Recipe3'', sample_recipe 1 1 ''Test Recipe1'']"
  by (simp add: RecipeViewSet_list_def initial_recipe_Some RecipeViewSet_get_queryset_def
      order_by_desc_def filter_user_def sample_db_def sample_recipe_def)

lemma sample_tag_list:
  "TagViewSet_list (Some 1) sample_db
     = Inr [\<lparr>tag_id = 1, tag_name = ''Vegan'', tag_user = 1\<rparr>,
            \<lparr>tag_id = 3, tag_name = ''Dinner'', tag_user = 1\<rparr>]"
  by (simp add: TagViewSet_list_def initial_tag_Some TagViewSet_get_queryset_def
      order_by_desc_def filter_user_def sample_db_def sample_tags_def)

lemma sample_db_distinct:
  "distinct (map recipe_id (recipes sample_db))" "distinct (map tag_id (tag_rows sample_db))"
  by (simp_all add: sample_db_def sample_recipe_def sample_tags_def)

subsection \<open>Visibility\<close>

lemma RecipeSerializer_update_owner:
  "RecipeSerializer_update owner r p ts = (r1, ts1) \<Longrightarrow>
     recipe_user r1 = recipe_user r \<and> recipe_id r1 = recipe_id r"
  by (auto simp: RecipeSerializer_update_def reconcile_tags_def apply_fields_def
      split: option.splits prod.splits)

lemma RecipeSerializer_create_owner:
  "RecipeSerializer_create owner d s = (r1, s1) \<Longrightarrow> recipe_user r1 = owner"
  by (auto simp: RecipeSerializer_create_def reconcile_tags_def Let_def
      split: option.splits prod.splits)

lemma TagSerializer_update_owner:
  "tag_user (TagSerializer_update t nm) = tag_user t \<and> tag_id (TagSerializer_update t nm) = tag_id t"
  by (simp add: TagSerializer_update_def split: option.splits)

lemma recipe_list_body:
  "RecipeViewSet_list (Some u) s = Inr rs \<Longrightarrow> r \<in> set rs \<Longrightarrow> recipe_user r = u"
  by (auto simp: RecipeViewSet_list_def initial_recipe_Some set_recipe_queryset)

lemma recipe_retrieve_body:
  "RecipeViewSet_retrieve (Some u) pk s = Inr r \<Longrightarrow> recipe_user r = u"
  by (auto simp: RecipeViewSet_retrieve_def initial_recipe_Some set_recipe_queryset
      dest!: get_object_in)

lemma recipe_create_body:
  "RecipeViewSet_create (Some u) d s = (Inr r, s1) \<Longrightarrow> recipe_user r = u"
  by (auto simp: RecipeViewSet_create_def initial_recipe_Some split: prod.splits
      dest: RecipeSerializer_create_owner)

lemma recipe_update_body:
  assumes "RecipeViewSet_update (Some u) pk p s = (Inr r1, s1)"
  shows "recipe_user r1 = u"
proof -
  from assms obtain r ts1 where g: "get_object recipe_id (RecipeViewSet_get_queryset u s) pk = Inr r"
    and upd: "RecipeSerializer_update u r p (tag_rows s) = (r1, ts1)"
    by (auto simp: RecipeViewSet_update_def initial_recipe_Some split: sum.splits prod.splits)
  from get_object_in [OF g] have "recipe_user r = u"
    by (simp add: set_recipe_queryset)
  with RecipeSerializer_update_owner [OF upd] show ?thesis by simp
qed

lemma tag_list_body:
  "TagViewSet_list (Some u) s = Inr ts \<Longrightarrow> t \<in> set ts \<Longrightarrow> tag_user t = u"
  by (auto simp: TagViewSet_list_def initial_tag_Some set_tag_queryset)

lemma tag_update_body:
  assumes "TagViewSet_update (Some u) pk nm s = (Inr t1, s1)"
  shows "tag_user t1 = u"
proof -
  from assms obtain t where g: "get_object tag_id (TagViewSet_get_queryset u s) pk = Inr t"
    and t1: "t1 = TagSerializer_update t nm"
    by (auto simp: TagViewSet_update_def initial_tag_Some Let_def split: sum.splits)
  from get_object_in [OF g] have "tag_user t = u"
    by (simp add: set_tag_queryset)
  with t1 show ?thesis by (simp add: TagSerializer_update_owner)
qed

text \<open>
  C1: whatever an authenticated caller requests from the recipe or tag endpoints, every
  recipe row and every tag row in the response body is owned by that caller. For the
  list and retrieve actions this is decided by the two \<^verbatim>\<open>get_queryset\<close> methods; the
  bodies of create and update pass through the serializers, which keep the owner.
\<close>

theorem visible_rows_owned:
  assumes "dispatch (Some u) req s = (Inr body, s1)"
  shows "(\<forall>r\<in>set (body_recipes body). recipe_user r = u)
       \<and> (\<forall>t\<in>set (body_tags body). tag_user t = u)"
proof (cases req)
  case RecipeList
  with assms show ?thesis
    by (cases "RecipeViewSet_list (Some u) s") (auto dest: recipe_list_body)
next
  case (RecipeRetrieve pk)
  with assms show ?thesis
    by (cases "RecipeViewSet_retrieve (Some u) pk s") (auto dest: recipe_retrieve_body)
next
  case (RecipeCreate d)
  with assms show ?thesis
    by (cases "RecipeViewSet_create (Some u) d s"; cases "fst (RecipeViewSet_create (Some u) d s)")
      (auto dest: recipe_create_body)
next
  case (RecipeUpdate pk p)
  with assms show ?thesis
    by (cases "RecipeViewSet_update (Some u) pk p s";
        cases "fst (RecipeViewSet_update (Some u) pk p s)")
      (auto dest: recipe_update_body)
next
  case (RecipeDestroy pk)
  with assms show ?thesis
    by (cases "RecipeViewSet_destroy (Some u) pk s";
        cases "fst (RecipeViewSet_destroy (Some u) pk s)") auto
next
  case TagList
  with assms show ?thesis
    by (cases "TagViewSet_list (Some u) s") (auto dest: tag_list_body)
next
  case (TagUpdate pk nm)
  with assms show ?thesis
    by (cases "TagViewSet_update (Some u) pk nm s";
        cases "fst (TagViewSet_update (Some u) pk nm s)")
      (auto dest: tag_update_body)
next
  case (TagDestroy pk)
  with assms show ?thesis
    by (cases "TagViewSet_destroy (Some u) pk s";
        cases "fst (TagViewSet_destroy (Some u) pk s)") auto
qed

text \<open>
  The lists of the first user over the sample data: the second user's recipe and tag
  are not in them.
\<close>

theorem visible_rows_owned_witness:
  "dispatch (Some 1) RecipeList sample_db
     = (Inr (RecipeListBody [sample_recipe 3 1 ''Test Recipe3'', sample_recipe 1 1 ''Test Recipe1'']),
        sample_db)
   \<and> recipe_user (sample_recipe 3 1 ''Test Recipe3'') = 1
   \<and> recipe_user (sample_recipe 1 1 ''Test Recipe1'') = 1
   \<and> dispatch (Some 1) TagList sample_db
     = (Inr (TagListBody [\<lparr>tag_id = 1, tag_name = ''Vegan'', tag_user = 1\<rparr>,
                          \<lparr>tag_id = 3, tag_name = ''Dinner'', tag_user = 1\<rparr>]),
        sample_db)
   \<and> tag_user \<lparr>tag_id = 3, tag_name = ''Dinner'', tag_user = 1\<rparr> = 1"
proof -
  have a: "dispatch (Some 1) RecipeList sample_db
     = (Inr (RecipeListBody [sample_recipe 3 1 ''Test Recipe3'', sample_recipe 1 1 ''Test Recipe1'']),
        sample_db)"
    using sample_recipe_list by simp
  have b: "dispatch (Some 1) TagList sample_db
     = (Inr (TagListBody [\<lparr>tag_id = 1, tag_name = ''Vegan'', tag_user = 1\<rparr>,
                          \<lparr>tag_id = 3, tag_name = ''Dinner'', tag_user = 1\<rparr>]),
        sample_db)"
    using sample_tag_list by simp
  from visible_rows_owned [OF a] visible_rows_owned [OF b] a b show ?thesis
    by simp
qed

text \<open>
  C5: for an authenticated caller the recipe list is the caller's recipes, each exactly
  as often as the table holds it and no other row, in descending order of id.
\<close>

theorem recipe_list_owned_desc:
  "\<exists>rs. RecipeViewSet_list (Some u) s = Inr rs
      \<and> mset rs = mset (filter (\<lambda>r. recipe_user r = u) (recipes s))
      \<and> sorted_wrt (\<lambda>a b. recipe_id a \<ge> recipe_id b) rs"
  by (simp add: RecipeViewSet_list_def initial_recipe_Some RecipeViewSet_get_queryset_def
      mset_order_by_desc sorted_order_by_desc filter_user_def)

theorem recipe_list_owned_desc_witness:
  "RecipeViewSet_list (Some 1) sample_db
     = Inr [sample_recipe 3 1 ''Test Recipe3'', sample_recipe 1 1 ''Test Recipe1'']
   \<and> sorted_wrt (\<lambda>a b. recipe_id a \<ge> recipe_id b)
       [sample_recipe 3 1 ''Test Recipe3'', sample_recipe 1 1 ''Test Recipe1'']"
  using recipe_list_owned_desc [of 1 sample_db] sample_recipe_list
  by (simp add: sample_recipe_def)

text \<open>
  C6: for an authenticated caller the tag list is the caller's tags, each exactly as
  often as the table holds it and no other row, in descending order of name.
\<close>

theorem tag_list_owned_desc:
  "\<exists>ts. TagViewSet_list (Some u) s = Inr ts
      \<and> mset ts = mset (filter (\<lambda>t. tag_user t = u) (tag_rows s))
      \<and> sorted_wrt (\<lambda>a b. tag_name a \<ge> tag_name b) ts"
  by (simp add: TagViewSet_list_def initial_tag_Some TagViewSet_get_queryset_def
      mset_order_by_desc sorted_order_by_desc filter_user_def)

theorem tag_list_owned_desc_witness:
  "TagViewSet_list (Some 1) sample_db
     = Inr [\<lparr>tag_id = 1, tag_name = ''Vegan'', tag_user = 1\<rparr>,
            \<lparr>tag_id = 3, tag_name = ''Dinner'', tag_user = 1\<rparr>]
   \<and> sorted_wrt (\<lambda>a b. tag_name a \<ge> tag_name b)
       [\<lparr>tag_id = 1, tag_name = ''Vegan'', tag_user = 1\<rparr>,
        \<lparr>tag_id = 3, tag_name = ''Dinner'', tag_user = 1\<rparr>]"
  using tag_list_owned_desc [of 1 sample_db] sample_tag_list
  by simp

subsection \<open>Mutations of another owner's rows\<close>

lemma foreign_recipe_NotFound:
  assumes "distinct (map recipe_id (recipes s))" "r \<in> set (recipes s)" "recipe_user r \<noteq> u"
  shows "get_object recipe_id (RecipeViewSet_get_queryset u s) (recipe_id r) = Inl NotFound"
proof (rule get_object_NotFound, rule ballI)
  fix x assume "x \<in> set (RecipeViewSet_get_queryset u s)"
  then have x: "x \<in> set (recipes s)" "recipe_user x = u"
    by (simp_all add: set_recipe_queryset)
  show "recipe_id x \<noteq> recipe_id r"
  proof
    assume "recipe_id x = recipe_id r"
    then have "x = r"
      by (rule distinct_pk_eq [OF assms(1) x(1) assms(2)])
    with x(2) assms(3) show False by simp
  qed
qed

lemma foreign_tag_NotFound:
  assumes "distinct (map tag_id (tag_rows s))" "t \<in> set (tag_rows s)" "tag_user t \<noteq> u"
  shows "get_object tag_id (TagViewSet_get_queryset u s) (tag_id t) = Inl NotFound"
proof (rule get_object_NotFound, rule ballI)
  fix x assume "x \<in> set (TagViewSet_get_queryset u s)"
  then have x: "x \<in> set (tag_rows s)" "tag_user x = u"
    by (simp_all add: set_tag_queryset)
  show "tag_id x \<noteq> tag_id t"
  proof
    assume "tag_id x = tag_id t"
    then have "x = t"
      by (rule distinct_pk_eq [OF assms(1) x(1) assms(2)])
    with x(2) assms(3) show False by simp
  qed
qed

text \<open>
  C4: when the primary keys of a table are distinct and a row of it is owned by someone
  other than the caller, the caller's update and delete of that row's id answer
  not-found, status 404 and not the forbidden error, and leave the database as it was.
  This holds for recipes and for tags.
\<close>

theorem foreign_mutation_not_found:
  "(distinct (map recipe_id (recipes s)) \<and> r \<in> set (recipes s) \<and> recipe_user r \<noteq> u \<longrightarrow>
      RecipeViewSet_update (Some u) (recipe_id r) p s = (Inl NotFound, s)
      \<and> RecipeViewSet_destroy (Some u) (recipe_id r) s = (Inl NotFound, s))
   \<and> (distinct (map tag_id (tag_rows s)) \<and> t \<in> set (tag_rows s) \<and> tag_user t \<noteq> u \<longrightarrow>
      TagViewSet_update (Some u) (tag_id t) nm s = (Inl NotFound, s)
      \<and> TagViewSet_destroy (Some u) (tag_id t) s = (Inl NotFound, s))
   \<and> NotFound \<noteq> PermissionDenied
   \<and> status_code RecipeViewSet_authentication_classes NotFound = 404
   \<and> status_code TagViewSet_authentication_classes NotFound = 404"
  by (simp add: RecipeViewSet_update_def RecipeViewSet_destroy_def TagViewSet_update_def
      TagViewSet_destroy_def initial_recipe_Some initial_tag_Some foreign_recipe_NotFound
      foreign_tag_NotFound)

text \<open>
  The first user patches and deletes the second user's recipe 2 and tag 2.
\<close>

theorem foreign_mutation_not_found_witness:
  "distinct (map recipe_id (recipes sample_db))
   \<and> sample_recipe 2 2 ''Test Recipe2'' \<in> set (recipes sample_db)
   \<and> recipe_user (sample_recipe 2 2 ''Test Recipe2'') \<noteq> 1
   \<and> RecipeViewSet_update (Some 1) 2 (no_patch\<lparr>p_title := Some ''new title''\<rparr>) sample_db
       = (Inl NotFound, sample_db)
   \<and> RecipeViewSet_destroy (Some 1) 2 sample_db = (Inl NotFound, sample_db)
   \<and> distinct (map tag_id (tag_rows sample_db))
   \<and> \<lparr>tag_id = 2, tag_name = ''tag1'', tag_user = 2\<rparr> \<in> set (tag_rows sample_db)
   \<and> TagViewSet_update (Some 1) 2 (Some ''newname'') sample_db = (Inl NotFound, sample_db)
   \<and> TagViewSet_destroy (Some 1) 2 sample_db = (Inl NotFound, sample_db)"
proof -
  have r: "sample_recipe 2 2 ''Test Recipe2'' \<in> set (recipes sample_db)"
    "recipe_user (sample_recipe 2 2 ''Test Recipe2'') \<noteq> 1"
    "recipe_id (sample_recipe 2 2 ''Test Recipe2'') = 2"
    by (simp_all add: sample_db_def sample_recipe_def)
  have t: "\<lparr>tag_id = 2, tag_name = ''tag1'', tag_user = 2\<rparr> \<in> set (tag_rows sample_db)"
    by (simp add: sample_db_def sample_tags_def)
  from foreign_mutation_not_found [of sample_db "sample_recipe 2 2 ''Test Recipe2''" 1
      "no_patch\<lparr>p_title := Some ''new title''\<rparr>" "\<lparr>tag_id = 2, tag_name = ''tag1'', tag_user = 2\<rparr>"
      "Some ''newname''"]
    sample_db_distinct r t
  show ?thesis by simp
qed

subsection \<open>Requests without an authenticated caller\<close>

text \<open>
  C8: a request of any recipe or tag endpoint without an authenticated caller is
  answered with the not-authenticated error, whose status is 401 for the
  authentication classes of the views; the answer carries no body and the database is
  as it was.
\<close>

theorem unauthenticated_request_401:
  "dispatch None req s = (Inl NotAuthenticated, s)
   \<and> status_code (request_authentication_classes req) NotAuthenticated = 401"
  by (cases req)
    (simp_all add: RecipeViewSet_list_def RecipeViewSet_retrieve_def RecipeViewSet_create_def
      RecipeViewSet_update_def RecipeViewSet_destroy_def TagViewSet_list_def TagViewSet_update_def
      TagViewSet_destroy_def RecipeViewSet_initial_def TagViewSet_initial_def initial_def
      permission_denied_def RecipeViewSet_permission_classes_def TagViewSet_permission_classes_def
      RecipeViewSet_authentication_classes_def TagViewSet_authentication_classes_def
      get_authenticate_header_def)

theorem unauthenticated_request_401_witness:
  "dispatch None RecipeList sample_db = (Inl NotAuthenticated, sample_db)
   \<and> dispatch None (RecipeCreate sample_fields) sample_db = (Inl NotAuthenticated, sample_db)
   \<and> dispatch None (TagDestroy 1) sample_db = (Inl NotAuthenticated, sample_db)
   \<and> status_code (request_authentication_classes TagList) NotAuthenticated = 401"
  using unauthenticated_request_401 [of RecipeList sample_db]
    unauthenticated_request_401 [of "RecipeCreate sample_fields" sample_db]
    unauthenticated_request_401 [of "TagDestroy 1" sample_db]
    unauthenticated_request_401 [of TagList sample_db]
  by simp

section \<open>Properties of the tag reconciliation\<close>

lemma lookup_tag_append:
  "lookup_tag owner nm (ts @ xs) =
     (case lookup_tag owner nm ts of None \<Rightarrow> lookup_tag owner nm xs | Some t \<Rightarrow> Some t)"
  by (induction ts) (simp_all add: lookup_tag_def)

lemma lookup_tag_None:
  "lookup_tag owner nm ts = None \<longleftrightarrow> (\<forall>t\<in>set ts. \<not> (tag_user t = owner \<and> tag_name t = nm))"
  by (auto simp: lookup_tag_def find_None_iff)

lemma lookup_tag_single:
  "lookup_tag owner nm [\<lparr>tag_id = i, tag_name = nm, tag_user = owner\<rparr>]
     = Some \<lparr>tag_id = i, tag_name = nm, tag_user = owner\<rparr>"
  by (simp add: lookup_tag_def)

lemma get_or_create_tag_lookup:
  assumes "get_or_create_tag owner nm ts = (t, ts1)"
  shows "lookup_tag owner nm ts1 = Some t" and "\<exists>new. ts1 = ts @ new"
  using assms
  by (auto simp: get_or_create_tag_def lookup_tag_append lookup_tag_single Let_def
      split: option.splits)

text \<open>The tag table only grows: no reconciliation deletes or rewrites a tag row.\<close>

lemma resolve_tags_extends:
  "resolve_tags owner nms ts = (rs, ts1) \<Longrightarrow> \<exists>new. ts1 = ts @ new"
proof (induction nms arbitrary: ts rs ts1)
  case Nil
  then show ?case by simp
next
  case (Cons nm nms)
  obtain t ta where g: "get_or_create_tag owner nm ts = (t, ta)"
    by (cases "get_or_create_tag owner nm ts")
  obtain rest tb where r: "resolve_tags owner nms ta = (rest, tb)"
    by (cases "resolve_tags owner nms ta")
  from Cons.prems g r have "ts1 = tb" by simp
  moreover from get_or_create_tag_lookup(2) [OF g] obtain n1 where "ta = ts @ n1" ..
  moreover from Cons.IH [OF r] obtain n2 where "tb = ta @ n2" ..
  ultimately show ?case by simp
qed

text \<open>Every resolved tag is what the lookup of its name finds in the final table.\<close>

lemma resolve_tags_lookup:
  "resolve_tags owner nms ts = (rs, ts1) \<Longrightarrow>
     map Some rs = map (\<lambda>nm. lookup_tag owner nm ts1) nms"
proof (induction nms arbitrary: ts rs ts1)
  case Nil
  then show ?case by simp
next
  case (Cons nm nms)
  obtain t ta where g: "get_or_create_tag owner nm ts = (t, ta)"
    by (cases "get_or_create_tag owner nm ts")
  obtain rest tb where r: "resolve_tags owner nms ta = (rest, tb)"
    by (cases "resolve_tags owner nms ta")
  from Cons.prems g r have eq: "ts1 = tb" "rs = t # rest" by simp_all
  from resolve_tags_extends [OF r] obtain n2 where "tb = ta @ n2" ..
  with get_or_create_tag_lookup(1) [OF g] have "lookup_tag owner nm tb = Some t"
    by (simp add: lookup_tag_append)
  with Cons.IH [OF r] eq show ?case by simp
qed

lemma resolve_tags_present:
  "map (\<lambda>nm. lookup_tag owner nm ts) nms = map Some rs \<Longrightarrow> resolve_tags owner nms ts = (rs, ts)"
  by (induction nms arbitrary: rs) (auto simp: get_or_create_tag_def)

lemma resolve_tags_idem:
  "resolve_tags owner nms ts = (rs, ts1) \<Longrightarrow> resolve_tags owner nms ts1 = (rs, ts1)"
  by (rule resolve_tags_present) (rule resolve_tags_lookup [symmetric])

lemma fold_max_ge: "a \<le> fold max xs (a::nat)" "\<forall>x\<in>set xs. x \<le> fold max xs a"
proof (induction xs arbitrary: a)
  case Nil
  { case 1 show ?case by simp }
  { case 2 show ?case by simp }
next
  case (Cons x xs)
  { case 1 show ?case using Cons.IH(1) [of "max x a"] by simp }
  { case 2 show ?case using Cons.IH(1) [of "max x a"] Cons.IH(2) [of "max x a"] by simp }
qed

lemma next_id_fresh: "next_id ids \<notin> set ids"
  using fold_max_ge(2) [of ids 0] by (auto simp: next_id_def)

lemma get_or_create_tag_distinct:
  assumes "get_or_create_tag owner nm ts = (t, ts1)"
  shows "distinct (map tag_key ts) \<Longrightarrow> distinct (map tag_key ts1)"
    and "distinct (map tag_id ts) \<Longrightarrow> distinct (map tag_id ts1)"
  using assms next_id_fresh [of "map tag_id ts"]
  by (auto simp: get_or_create_tag_def Let_def lookup_tag_None tag_key_def split: option.splits)

lemma resolve_tags_distinct:
  "resolve_tags owner nms ts = (rs, ts1) \<Longrightarrow>
     (distinct (map tag_key ts) \<longrightarrow> distinct (map tag_key ts1))
     \<and> (distinct (map tag_id ts) \<longrightarrow> distinct (map tag_id ts1))"
proof (induction nms arbitrary: ts rs ts1)
  case Nil
  then show ?case by simp
next
  case (Cons nm nms)
  obtain t ta where g: "get_or_create_tag owner nm ts = (t, ta)"
    by (cases "get_or_create_tag owner nm ts")
  obtain rest tb where r: "resolve_tags owner nms ta = (rest, tb)"
    by (cases "resolve_tags owner nms ta")
  from Cons.prems g r have "ts1 = tb" by simp
  with Cons.IH [OF r] get_or_create_tag_distinct [OF g] show ?case by simp
qed

lemma get_or_create_tag_keeps:
  assumes "get_or_create_tag owner a ts = (t1, ta)" and "lookup_tag owner nm ts = Some t"
  shows "filter (\<lambda>x. tag_key x = (owner, nm)) ta = filter (\<lambda>x. tag_key x = (owner, nm)) ts"
    and "lookup_tag owner nm ta = Some t"
  using assms
  by (auto simp: get_or_create_tag_def Let_def tag_key_def lookup_tag_append split: option.splits)

lemma resolve_tags_keeps:
  "resolve_tags owner nms ts = (rs, ts1) \<Longrightarrow> lookup_tag owner nm ts = Some t \<Longrightarrow>
     filter (\<lambda>x. tag_key x = (owner, nm)) ts1 = filter (\<lambda>x. tag_key x = (owner, nm)) ts
     \<and> lookup_tag owner nm ts1 = Some t"
proof (induction nms arbitrary: ts rs ts1)
  case Nil
  then show ?case by simp
next
  case (Cons a nms)
  obtain t1 ta where g: "get_or_create_tag owner a ts = (t1, ta)"
    by (cases "get_or_create_tag owner a ts")
  obtain rest tb where r: "resolve_tags owner nms ta = (rest, tb)"
    by (cases "resolve_tags owner nms ta")
  from Cons.prems(1) g r have "ts1 = tb" by simp
  with Cons.IH [OF r get_or_create_tag_keeps(2) [OF g Cons.prems(2)]]
    get_or_create_tag_keeps(1) [OF g Cons.prems(2)]
  show ?case by simp
qed

lemma map_Some_set:
  assumes "map Some rs = map f nms"
  shows "set rs = {t. \<exists>nm\<in>set nms. f nm = Some t}"
proof -
  have "Some ` set rs = f ` set nms"
    using arg_cong [OF assms, of set] by simp
  then have "\<And>t. (Some t \<in> Some ` set rs) = (Some t \<in> f ` set nms)"
    by simp
  then have "\<And>t. (t \<in> set rs) = (\<exists>nm\<in>set nms. f nm = Some t)"
    by (simp add: image_iff) (metis)
  then show ?thesis by blast
qed

lemma reconcile_tags_ids:
  assumes "reconcile_tags owner nms r ts = (r1, ts1)"
  shows "tags r1 = {tag_id t |t nm. nm \<in> set nms \<and> lookup_tag owner nm ts1 = Some t}"
    and "\<forall>nm\<in>set nms. \<exists>t. lookup_tag owner nm ts1 = Some t"
    and "\<exists>new. ts1 = ts @ new"
proof -
  obtain rs where rs: "resolve_tags owner nms ts = (rs, ts1)"
    and r1: "r1 = r\<lparr>tags := tag_id ` set rs\<rparr>"
    using assms by (auto simp: reconcile_tags_def split: prod.splits)
  have m: "map Some rs = map (\<lambda>nm. lookup_tag owner nm ts1) nms"
    by (rule resolve_tags_lookup [OF rs])
  have "set rs = {t. \<exists>nm\<in>set nms. lookup_tag owner nm ts1 = Some t}"
    by (rule map_Some_set [OF m])
  then show "tags r1 = {tag_id t |t nm. nm \<in> set nms \<and> lookup_tag owner nm ts1 = Some t}"
    using r1 by auto
  show "\<forall>nm\<in>set nms. \<exists>t. lookup_tag owner nm ts1 = Some t"
  proof
    fix nm assume "nm \<in> set nms"
    then have "lookup_tag owner nm ts1 \<in> set (map Some rs)"
      unfolding m by simp
    then show "\<exists>t. lookup_tag owner nm ts1 = Some t" by auto
  qed
  show "\<exists>new. ts1 = ts @ new"
    by (rule resolve_tags_extends [OF rs])
qed

subsection \<open>Sample evaluations\<close>

lemma sample_reconcile:
  "reconcile_tags 1 [''Vegan'', ''tag1''] (sample_recipe 3 1 ''Test Recipe3'') sample_tags
     = ((sample_recipe 3 1 ''Test Recipe3'')\<lparr>tags := {1, 4}\<rparr>,
        sample_tags @ [\<lparr>tag_id = 4, tag_name = ''tag1'', tag_user = 1\<rparr>])"
  by (simp add: reconcile_tags_def get_or_create_tag_def lookup_tag_def next_id_def Let_def
      sample_tags_def sample_recipe_def eval_nat_numeral)

lemma sample_reconcile_empty:
  "reconcile_tags 1 [] ((sample_recipe 3 1 ''Test Recipe3'')\<lparr>tags := {1, 3}\<rparr>) sample_tags
     = (sample_recipe 3 1 ''Test Recipe3'', sample_tags)"
  by (simp add: reconcile_tags_def sample_recipe_def)

text \<open>
  C2: when a recipe update or create supplies a list of tag names, the recipe's tag set
  afterwards is exactly the ids of the tags the lookup of those names finds in the tag
  table, every requested name has such a tag, and the tag table has only grown. With
  the empty list the recipe has no tag left and the tag table is as it was.
\<close>

theorem reconciled_tag_set:
  "(\<forall>r1 ts1. p_tags p = Some nms \<and> RecipeSerializer_update owner r p ts = (r1, ts1) \<longrightarrow>
       tags r1 = {tag_id t |t nm. nm \<in> set nms \<and> lookup_tag owner nm ts1 = Some t}
       \<and> (\<forall>nm\<in>set nms. \<exists>t. lookup_tag owner nm ts1 = Some t)
       \<and> (\<exists>new. ts1 = ts @ new)
       \<and> (nms = [] \<longrightarrow> tags r1 = {} \<and> ts1 = ts))
   \<and> (\<forall>r2 s2. f_tags d = Some nms \<and> RecipeSerializer_create owner d s = (r2, s2) \<longrightarrow>
       tags r2 = {tag_id t |t nm. nm \<in> set nms \<and> lookup_tag owner nm (tag_rows s2) = Some t}
       \<and> (\<forall>nm\<in>set nms. \<exists>t. lookup_tag owner nm (tag_rows s2) = Some t)
       \<and> (\<exists>new. tag_rows s2 = tag_rows s @ new)
       \<and> (nms = [] \<longrightarrow> tags r2 = {} \<and> tag_rows s2 = tag_rows s))"
proof (intro conjI allI impI)
  fix r1 ts1
  assume a: "p_tags p = Some nms \<and> RecipeSerializer_update owner r p ts = (r1, ts1)"
  then obtain r0 where rec: "reconcile_tags owner nms r ts = (r0, ts1)"
    and r1: "r1 = apply_fields p r0"
    by (auto simp: RecipeSerializer_update_def split: prod.splits)
  have t: "tags r1 = tags r0"
    by (simp add: r1 apply_fields_def)
  show "tags r1 = {tag_id t |t nm. nm \<in> set nms \<and> lookup_tag owner nm ts1 = Some t}"
    using reconcile_tags_ids(1) [OF rec] t by simp
  show "\<forall>nm\<in>set nms. \<exists>t. lookup_tag owner nm ts1 = Some t"
    by (rule reconcile_tags_ids(2) [OF rec])
  show "\<exists>new. ts1 = ts @ new"
    by (rule reconcile_tags_ids(3) [OF rec])
  show "tags r1 = {}" if "nms = []"
    using rec t that by (auto simp: reconcile_tags_def)
  show "ts1 = ts" if "nms = []"
    using rec that by (auto simp: reconcile_tags_def)
next
  fix r2 s2
  assume a: "f_tags d = Some nms \<and> RecipeSerializer_create owner d s = (r2, s2)"
  then obtain r0 where rec: "reconcile_tags owner nms r0 (tag_rows s) = (r2, tag_rows s2)"
    by (auto simp: RecipeSerializer_create_def Let_def split: prod.splits)
  show "tags r2 = {tag_id t |t nm. nm \<in> set nms \<and> lookup_tag owner nm (tag_rows s2) = Some t}"
    by (rule reconcile_tags_ids(1) [OF rec])
  show "\<forall>nm\<in>set nms. \<exists>t. lookup_tag owner nm (tag_rows s2) = Some t"
    by (rule reconcile_tags_ids(2) [OF rec])
  show "\<exists>new. tag_rows s2 = tag_rows s @ new"
    by (rule reconcile_tags_ids(3) [OF rec])
  show "tags r2 = {}" if "nms = []"
    using rec that by (auto simp: reconcile_tags_def)
  show "tag_rows s2 = tag_rows s" if "nms = []"
    using rec that by (auto simp: reconcile_tags_def)
qed

text \<open>
  The first user patches recipe 3 with the tags Vegan and tag1: the user's own Vegan is
  attached, and a tag1 of the user's own is created beside the second user's. A patch
  with the empty list then clears the tags and leaves the tag table alone.
\<close>

theorem reconciled_tag_set_witness:
  "RecipeSerializer_update 1 (sample_recipe 3 1 ''Test Recipe3'')
      (no_patch\<lparr>p_tags := Some [''Vegan'', ''tag1'']\<rparr>) sample_tags
     = ((sample_recipe 3 1 ''Test Recipe3'')\<lparr>tags := {1, 4}\<rparr>,
        sample_tags @ [\<lparr>tag_id = 4, tag_name = ''tag1'', tag_user = 1\<rparr>])
   \<and> tags ((sample_recipe 3 1 ''Test Recipe3'')\<lparr>tags := {1, 4}\<rparr>)
     = {tag_id t |t nm. nm \<in> set [''Vegan'', ''tag1'']
          \<and> lookup_tag 1 nm (sample_tags @ [\<lparr>tag_id = 4, tag_name = ''tag1'', tag_user = 1\<rparr>])
              = Some t}
   \<and> RecipeSerializer_update 1 ((sample_recipe 3 1 ''Test Recipe3'')\<lparr>tags := {1, 3}\<rparr>)
      (no_patch\<lparr>p_tags := Some []\<rparr>) sample_tags
     = (sample_recipe 3 1 ''Test Recipe3'', sample_tags)
   \<and> tags (sample_recipe 3 1 ''Test Recipe3'') = {}
   \<and> fst (RecipeSerializer_create 1 (sample_fields\<lparr>f_tags := Some []\<rparr>) sample_db)
     = (sample_recipe 4 1 ''Sample Recipe'')
         \<lparr>time_minutes := 10, price := 7 / 2, description := ''This is a sample recipe'',
          link := ''https://www.examplerecipe.com''\<rparr>"
proof -
  have a: "p_tags (no_patch\<lparr>p_tags := Some [''Vegan'', ''tag1'']\<rparr>) = Some [''Vegan'', ''tag1'']
    \<and> RecipeSerializer_update 1 (sample_recipe 3 1 ''Test Recipe3'')
      (no_patch\<lparr>p_tags := Some [''Vegan'', ''tag1'']\<rparr>) sample_tags
     = ((sample_recipe 3 1 ''Test Recipe3'')\<lparr>tags := {1, 4}\<rparr>,
        sample_tags @ [\<lparr>tag_id = 4, tag_name = ''tag1'', tag_user = 1\<rparr>])"
    using sample_reconcile
    by (simp add: RecipeSerializer_update_def apply_fields_def no_patch_def sample_recipe_def)
  have b: "p_tags (no_patch\<lparr>p_tags := Some []\<rparr>) = Some []
    \<and> RecipeSerializer_update 1 ((sample_recipe 3 1 ''Test Recipe3'')\<lparr>tags := {1, 3}\<rparr>)
      (no_patch\<lparr>p_tags := Some []\<rparr>) sample_tags
     = (sample_recipe 3 1 ''Test Recipe3'', sample_tags)"
    using sample_reconcile_empty
    by (simp add: RecipeSerializer_update_def apply_fields_def no_patch_def sample_recipe_def)
  have c: "f_tags (sample_fields\<lparr>f_tags := Some []\<rparr>) = Some []
    \<and> RecipeSerializer_create 1 (sample_fields\<lparr>f_tags := Some []\<rparr>) sample_db
     = ((sample_recipe 4 1 ''Sample Recipe'')
         \<lparr>time_minutes := 10, price := 7 / 2, description := ''This is a sample recipe'',
          link := ''https://www.examplerecipe.com''\<rparr>,
        sample_db\<lparr>recipes := recipes sample_db @
          [(sample_recipe 4 1 ''Sample Recipe'')
            \<lparr>time_minutes := 10, price := 7 / 2, description := ''This is a sample recipe'',
             link := ''https://www.examplerecipe.com''\<rparr>]\<rparr>)"
    by (simp add: RecipeSerializer_create_def reconcile_tags_def sample_fields_def sample_db_def
        sample_recipe_def next_id_def Let_def)
  from reconciled_tag_set [of "no_patch\<lparr>p_tags := Some [''Vegan'', ''tag1'']\<rparr>"
      "[''Vegan'', ''tag1'']" 1 "sample_recipe 3 1 ''Test Recipe3''" sample_tags sample_fields sample_db]
    a
  have t1: "tags ((sample_recipe 3 1 ''Test Recipe3'')\<lparr>tags := {1, 4}\<rparr>)
     = {tag_id t |t nm. nm \<in> set [''Vegan'', ''tag1'']
          \<and> lookup_tag 1 nm (sample_tags @ [\<lparr>tag_id = 4, tag_name = ''tag1'', tag_user = 1\<rparr>])
              = Some t}"
    by blast
  from reconciled_tag_set [of "no_patch\<lparr>p_tags := Some []\<rparr>" "[]" 1
      "(sample_recipe 3 1 ''Test Recipe3'')\<lparr>tags := {1, 3}\<rparr>" sample_tags
      "sample_fields\<lparr>f_tags := Some []\<rparr>" sample_db]
    b c
  have t2: "tags (sample_recipe 3 1 ''Test Recipe3'') = {}"
    by blast
  from a b c t1 t2 show ?thesis
    by simp
qed

text \<open>
  C3: reconciling the same names again changes neither the recipe's tag set nor the tag
  table, so it creates no tag row. A table without two tags of one owner and name, or
  without two tags of one id, stays so. A requested name that an existing tag of the
  owner carries gets that tag attached, and no further tag of that owner and name is
  created.
\<close>

theorem reconcile_tags_idempotent:
  assumes "reconcile_tags owner nms r ts = (r1, ts1)"
  shows "reconcile_tags owner nms r1 ts1 = (r1, ts1)
    \<and> (distinct (map tag_key ts) \<longrightarrow> distinct (map tag_key ts1))
    \<and> (distinct (map tag_id ts) \<longrightarrow> distinct (map tag_id ts1))
    \<and> (\<forall>nm t. nm \<in> set nms \<and> lookup_tag owner nm ts = Some t \<longrightarrow>
          tag_id t \<in> tags r1 \<and> lookup_tag owner nm ts1 = Some t
          \<and> filter (\<lambda>x. tag_key x = (owner, nm)) ts1 = filter (\<lambda>x. tag_key x = (owner, nm)) ts)"
proof -
  obtain rs where rs: "resolve_tags owner nms ts = (rs, ts1)"
    and r1: "r1 = r\<lparr>tags := tag_id ` set rs\<rparr>"
    using assms by (auto simp: reconcile_tags_def split: prod.splits)
  have again: "reconcile_tags owner nms r1 ts1 = (r1, ts1)"
    by (simp add: reconcile_tags_def resolve_tags_idem [OF rs] r1)
  have kept: "tag_id t \<in> tags r1 \<and> lookup_tag owner nm ts1 = Some t
      \<and> filter (\<lambda>x. tag_key x = (owner, nm)) ts1 = filter (\<lambda>x. tag_key x = (owner, nm)) ts"
    if "nm \<in> set nms \<and> lookup_tag owner nm ts = Some t" for nm t
  proof -
    from that have k: "filter (\<lambda>x. tag_key x = (owner, nm)) ts1 = filter (\<lambda>x. tag_key x = (owner, nm)) ts"
      "lookup_tag owner nm ts1 = Some t"
      using resolve_tags_keeps [OF rs, of nm t] by simp_all
    with that have "tag_id t \<in> tags r1"
      unfolding reconcile_tags_ids(1) [OF assms] by blast
    with k show ?thesis by simp
  qed
  from again resolve_tags_distinct [OF rs] kept show ?thesis
    by blast
qed

text \<open>
  The sample reconciliation, run a second time on its own result: the Vegan tag of the
  first user is reused and the tag table keeps its four rows.
\<close>

theorem reconcile_tags_idempotent_witness:
  "reconcile_tags 1 [''Vegan'', ''tag1''] (sample_recipe 3 1 ''Test Recipe3'') sample_tags
     = ((sample_recipe 3 1 ''Test Recipe3'')\<lparr>tags := {1, 4}\<rparr>,
        sample_tags @ [\<lparr>tag_id = 4, tag_name = ''tag1'', tag_user = 1\<rparr>])
   \<and> reconcile_tags 1 [''Vegan'', ''tag1''] ((sample_recipe 3 1 ''Test Recipe3'')\<lparr>tags := {1, 4}\<rparr>)
       (sample_tags @ [\<lparr>tag_id = 4, tag_name = ''tag1'', tag_user = 1\<rparr>])
     = ((sample_recipe 3 1 ''Test Recipe3'')\<lparr>tags := {1, 4}\<rparr>,
        sample_tags @ [\<lparr>tag_id = 4, tag_name = ''tag1'', tag_user = 1\<rparr>])
   \<and> distinct (map tag_key sample_tags)
   \<and> distinct (map tag_key (sample_tags @ [\<lparr>tag_id = 4, tag_name = ''tag1'', tag_user = 1\<rparr>]))
   \<and> distinct (map tag_id sample_tags)
   \<and> distinct (map tag_id (sample_tags @ [\<lparr>tag_id = 4, tag_name = ''tag1'', tag_user = 1\<rparr>]))
   \<and> lookup_tag 1 ''Vegan'' sample_tags = Some \<lparr>tag_id = 1, tag_name = ''Vegan'', tag_user = 1\<rparr>
   \<and> lookup_tag 1 ''Vegan'' (sample_tags @ [\<lparr>tag_id = 4, tag_name = ''tag1'', tag_user = 1\<rparr>])
       = Some \<lparr>tag_id = 1, tag_name = ''Vegan'', tag_user = 1\<rparr>"
proof -
  have d: "distinct (map tag_key sample_tags)" "distinct (map tag_id sample_tags)"
    by (simp_all add: sample_tags_def tag_key_def)
  have l: "''Vegan'' \<in> set [''Vegan'', ''tag1'']
      \<and> lookup_tag 1 ''Vegan'' sample_tags = Some \<lparr>tag_id = 1, tag_name = ''Vegan'', tag_user = 1\<rparr>"
    by (simp add: lookup_tag_def sample_tags_def)
  from reconcile_tags_idempotent [OF sample_reconcile] d l sample_reconcile
  show ?thesis by blast
qed

section \<open>Partial update of a recipe\<close>

lemma get_object_own_recipe:
  assumes "distinct (map recipe_id (recipes s))" "r \<in> set (recipes s)" "recipe_user r = u"
  shows "get_object recipe_id (RecipeViewSet_get_queryset u s) (recipe_id r) = Inr r"
proof -
  have "r \<in> set (RecipeViewSet_get_queryset u s)"
    using assms by (simp add: set_recipe_queryset)
  then obtain x where x: "get_object recipe_id (RecipeViewSet_get_queryset u s) (recipe_id r) = Inr x"
    by (cases "get_object recipe_id (RecipeViewSet_get_queryset u s) (recipe_id r)")
      (auto simp: get_object_def find_None_iff split: option.splits)
  from get_object_in [OF x] have "x \<in> set (recipes s)" "recipe_id x = recipe_id r"
    by (simp_all add: set_recipe_queryset)
  then have "x = r"
    by (rule distinct_pk_eq [OF assms(1) _ assms(2)])
  with x show ?thesis by simp
qed

text \<open>
  C7: when the owner of a recipe updates it with some of the fields, the request
  succeeds, every field the payload leaves out keeps its value, every field it supplies
  takes the supplied value, id and owner stay, and every other recipe row is untouched.
  Without a tags field the recipe's tag set and the tag table are as they were.
\<close>

theorem partial_update_frame:
  assumes "distinct (map recipe_id (recipes s))" and "r \<in> set (recipes s)" and "recipe_user r = u"
  shows "\<exists>r1 s1. RecipeViewSet_update (Some u) (recipe_id r) p s = (Inr r1, s1)
      \<and> recipe_id r1 = recipe_id r \<and> recipe_user r1 = recipe_user r
      \<and> (p_title p = None \<longrightarrow> title r1 = title r)
      \<and> (p_time_minutes p = None \<longrightarrow> time_minutes r1 = time_minutes r)
      \<and> (p_price p = None \<longrightarrow> price r1 = price r)
      \<and> (p_description p = None \<longrightarrow> description r1 = description r)
      \<and> (p_link p = None \<longrightarrow> link r1 = link r)
      \<and> (p_tags p = None \<longrightarrow> tags r1 = tags r \<and> tag_rows s1 = tag_rows s)
      \<and> (\<forall>v. p_title p = Some v \<longrightarrow> title r1 = v)
      \<and> (\<forall>v. p_time_minutes p = Some v \<longrightarrow> time_minutes r1 = v)
      \<and> (\<forall>v. p_price p = Some v \<longrightarrow> price r1 = v)
      \<and> (\<forall>v. p_description p = Some v \<longrightarrow> description r1 = v)
      \<and> (\<forall>v. p_link p = Some v \<longrightarrow> link r1 = v)
      \<and> recipes s1 = map (\<lambda>x. if x = r then r1 else x) (recipes s)"
proof -
  obtain r0 ts1 where rec: "(case p_tags p of None \<Rightarrow> (r, tag_rows s)
      | Some nms \<Rightarrow> reconcile_tags u nms r (tag_rows s)) = (r0, ts1)"
    by (cases "case p_tags p of None \<Rightarrow> (r, tag_rows s)
      | Some nms \<Rightarrow> reconcile_tags u nms r (tag_rows s)")
  have r0: "recipe_id r0 = recipe_id r" "recipe_user r0 = recipe_user r" "title r0 = title r"
    "time_minutes r0 = time_minutes r" "price r0 = price r" "description r0 = description r"
    "link r0 = link r"
    using rec by (auto simp: reconcile_tags_def split: option.splits prod.splits)
  have none: "p_tags p = None \<Longrightarrow> r0 = r \<and> ts1 = tag_rows s"
    using rec by simp
  have same: "save_row recipe_id (apply_fields p r0) (recipes s)
      = map (\<lambda>x. if x = r then apply_fields p r0 else x) (recipes s)"
    unfolding save_row_def
  proof (rule map_cong [OF refl])
    fix x assume "x \<in> set (recipes s)"
    then have "(recipe_id x = recipe_id r) = (x = r)"
      using distinct_pk_eq [OF assms(1) _ assms(2)] by blast
    then show "(if recipe_id x = recipe_id (apply_fields p r0) then apply_fields p r0 else x)
        = (if x = r then apply_fields p r0 else x)"
      by (simp add: apply_fields_def r0)
  qed
  have "RecipeViewSet_update (Some u) (recipe_id r) p s
      = (Inr (apply_fields p r0),
         \<lparr>recipes = save_row recipe_id (apply_fields p r0) (recipes s), tag_rows = ts1\<rparr>)"
    using rec
    by (simp add: RecipeViewSet_update_def initial_recipe_Some get_object_own_recipe [OF assms]
        RecipeSerializer_update_def)
  then show ?thesis
    using r0 none same by (auto simp: apply_fields_def)
qed

text \<open>
  The first user patches only the title of recipe 1, and then everything but the title:
  what the patch leaves out is as before.
\<close>

theorem partial_update_frame_witness:
  "distinct (map recipe_id (recipes sample_db))
   \<and> sample_recipe 1 1 ''Test Recipe1'' \<in> set (recipes sample_db)
   \<and> (\<exists>r1 s1. RecipeViewSet_update (Some 1) 1 (no_patch\<lparr>p_title := Some ''new title''\<rparr>) sample_db
         = (Inr r1, s1)
       \<and> title r1 = ''new title'' \<and> link r1 = ''https://www.example.com'' \<and> time_minutes r1 = 22
       \<and> price r1 = 21 / 4 \<and> description r1 = ''This is a test recipe'' \<and> tags r1 = {}
       \<and> tag_rows s1 = sample_tags)
   \<and> (\<exists>r1 s1. RecipeViewSet_update (Some 1) 1
          \<lparr>p_title = None, p_time_minutes = Some 1, p_price = Some 6,
           p_description = Some ''new sample description'',
           p_link = Some ''https://www.newexample.com'', p_tags = Some []\<rparr> sample_db
         = (Inr r1, s1)
       \<and> title r1 = ''Test Recipe1'' \<and> link r1 = ''https://www.newexample.com''
       \<and> time_minutes r1 = 1 \<and> price r1 = 6
       \<and> description r1 = ''new sample description'')"
proof -
  have h: "sample_recipe 1 1 ''Test Recipe1'' \<in> set (recipes sample_db)"
    "recipe_user (sample_recipe 1 1 ''Test Recipe1'') = 1"
    by (simp_all add: sample_db_def sample_recipe_def)
  have i: "recipe_id (sample_recipe 1 1 ''Test Recipe1'') = 1"
    by (simp add: sample_recipe_def)
  from partial_update_frame [OF sample_db_distinct(1) h, of "no_patch\<lparr>p_title := Some ''new title''\<rparr>"]
  have a: "\<exists>r1 s1. RecipeViewSet_update (Some 1) 1 (no_patch\<lparr>p_title := Some ''new title''\<rparr>) sample_db
         = (Inr r1, s1)
       \<and> title r1 = ''new title'' \<and> link r1 = ''https://www.example.com'' \<and> time_minutes r1 = 22
       \<and> price r1 = 21 / 4 \<and> description r1 = ''This is a test recipe'' \<and> tags r1 = {}
       \<and> tag_rows s1 = sample_tags"
    unfolding i by (auto simp add: no_patch_def sample_recipe_def sample_db_def)
  from partial_update_frame [OF sample_db_distinct(1) h,
      of "\<lparr>p_title = None, p_time_minutes = Some 1, p_price = Some 6,
           p_description = Some ''new sample description'',
           p_link = Some ''https://www.newexample.com'', p_tags = Some []\<rparr>"]
  have b: "\<exists>r1 s1. RecipeViewSet_update (Some 1) 1
          \<lparr>p_title = None, p_time_minutes = Some 1, p_price = Some 6,
           p_description = Some ''new sample description'',
           p_link = Some ''https://www.newexample.com'', p_tags = Some []\<rparr> sample_db
         = (Inr r1, s1)
       \<and> title r1 = ''Test Recipe1'' \<and> link r1 = ''https://www.newexample.com''
       \<and> time_minutes r1 = 1 \<and> price r1 = 6
       \<and> description r1 = ''new sample description''"
    unfolding i by (auto simp add: sample_recipe_def)
  from sample_db_distinct(1) h(1) a b show ?thesis
    by blast
qed

section \<open>Properties of the user serializers\<close>

lemma ModelSerializer_update_fields:
  "email (ModelSerializer_update instance vd)
     = (case vd ''email'' of None \<Rightarrow> email instance | Some v \<Rightarrow> v)"
  "name (ModelSerializer_update instance vd)
     = (case vd ''name'' of None \<Rightarrow> name instance | Some v \<Rightarrow> v)"
  "password (ModelSerializer_update instance vd)
     = (case vd ''password'' of None \<Rightarrow> password instance | Some v \<Rightarrow> v)"
  by (simp_all add: ModelSerializer_update_def UserSerializer_fields_def split: option.splits)

lemma validated_password: "validated vd \<Longrightarrow> vd ''password'' = Some raw \<Longrightarrow> 5 \<le> length raw"
  by (simp add: validated_def UserSerializer_fields_def min_length_def)

lemma to_representation_eq: "to_representation u = [(''email'', email u), (''name'', name u)]"
  by (simp add: to_representation_def UserSerializer_fields_def write_only_def)

text \<open>
  The update alone, on data that did not pass the minimum length: an empty password
  counts as no password.
\<close>

lemma update_empty_password:
  "password (UserSerializer_update make_password u [''password'' \<mapsto> []]) = password u"
  by (simp add: UserSerializer_update_def ModelSerializer_update_fields)

text \<open>
  C9: on validated data, a profile update without a password leaves the stored password
  as it was; with a password it stores the hasher's result for it, so the raw password
  is stored only if the hasher returns it; the stored password changes only when the
  data hold a password; email and name take the supplied values and keep their own
  otherwise; and the serialized user has no password field.
\<close>

theorem user_update_password:
  assumes "validated vd"
  shows "(vd ''password'' = None \<longrightarrow>
            password (UserSerializer_update make_password instance vd) = password instance)
    \<and> (\<forall>raw. vd ''password'' = Some raw \<longrightarrow>
            password (UserSerializer_update make_password instance vd) = make_password raw
            \<and> (make_password raw \<noteq> raw \<longrightarrow>
                  password (UserSerializer_update make_password instance vd) \<noteq> raw))
    \<and> (password (UserSerializer_update make_password instance vd) \<noteq> password instance \<longrightarrow>
            (\<exists>raw. vd ''password'' = Some raw))
    \<and> email (UserSerializer_update make_password instance vd)
         = (case vd ''email'' of None \<Rightarrow> email instance | Some v \<Rightarrow> v)
    \<and> name (UserSerializer_update make_password instance vd)
         = (case vd ''name'' of None \<Rightarrow> name instance | Some v \<Rightarrow> v)
    \<and> ''password'' \<notin> fst ` set (to_representation (UserSerializer_update make_password instance vd))"
proof -
  have nonempty: "raw \<noteq> []" if "vd ''password'' = Some raw" for raw
    using validated_password [OF assms that] by auto
  have pw_none: "password (UserSerializer_update make_password instance vd) = password instance"
    if "vd ''password'' = None"
    using that by (simp add: UserSerializer_update_def ModelSerializer_update_fields)
  have pw_some: "password (UserSerializer_update make_password instance vd) = make_password raw"
    if "vd ''password'' = Some raw" for raw
    using that nonempty [OF that] by (simp add: UserSerializer_update_def set_password_def)
  have other: "email (UserSerializer_update make_password instance vd)
         = (case vd ''email'' of None \<Rightarrow> email instance | Some v \<Rightarrow> v)"
    "name (UserSerializer_update make_password instance vd)
         = (case vd ''name'' of None \<Rightarrow> name instance | Some v \<Rightarrow> v)"
    by (simp_all add: UserSerializer_update_def ModelSerializer_update_fields set_password_def
        Let_def split: option.splits)
  have out: "''password'' \<notin> fst ` set (to_representation (UserSerializer_update make_password instance vd))"
    by (simp add: to_representation_eq)
  from pw_none pw_some other out show ?thesis
    by (cases "vd ''password''") simp_all
qed

text \<open>
  A profile edit with a new password and a new name, and one with the name alone.
\<close>

theorem user_update_password_witness:
  "validated [''password'' \<mapsto> ''newpass123'', ''name'' \<mapsto> ''New name'']
   \<and> UserSerializer_update sample_hasher sample_user
        [''password'' \<mapsto> ''newpass123'', ''name'' \<mapsto> ''New name'']
      = \<lparr>email = ''user@example.com'', password = ''hash:newpass123'', name = ''New name''\<rparr>
   \<and> validated [''name'' \<mapsto> ''New name'']
   \<and> UserSerializer_update sample_hasher sample_user [''name'' \<mapsto> ''New name'']
      = \<lparr>email = ''user@example.com'', password = ''hash:testpass123'', name = ''New name''\<rparr>
   \<and> to_representation
        (UserSerializer_update sample_hasher sample_user [''name'' \<mapsto> ''New name''])
      = [(''email'', ''user@example.com''), (''name'', ''New name'')]"
proof -
  have a: "validated [''password'' \<mapsto> ''newpass123'', ''name'' \<mapsto> ''New name'']"
    by (simp add: validated_def UserSerializer_fields_def min_length_def)
  have b: "validated [''name'' \<mapsto> ''New name'']"
    by (simp add: validated_def UserSerializer_fields_def min_length_def)
  let ?ua = "UserSerializer_update sample_hasher sample_user
        [''password'' \<mapsto> ''newpass123'', ''name'' \<mapsto> ''New name'']"
  let ?ub = "UserSerializer_update sample_hasher sample_user [''name'' \<mapsto> ''New name'']"
  from user_update_password [OF a, of sample_hasher sample_user]
  have "password ?ua = ''hash:newpass123'' \<and> email ?ua = ''user@example.com''
      \<and> name ?ua = ''New name''"
    by (simp add: sample_hasher_def sample_user_def)
  then have ua: "?ua = \<lparr>email = ''user@example.com'', password = ''hash:newpass123'', name = ''New name''\<rparr>"
    by (cases ?ua) simp
  from user_update_password [OF b, of sample_hasher sample_user]
  have "password ?ub = ''hash:testpass123'' \<and> email ?ub = ''user@example.com''
      \<and> name ?ub = ''New name''"
    by (simp add: sample_user_def)
  then have ub: "?ub = \<lparr>email = ''user@example.com'', password = ''hash:testpass123'', name = ''New name''\<rparr>"
    by (cases ?ub) simp
  from a b ua ub show ?thesis
    by (simp add: to_representation_eq)
qed

text \<open>
  C10: the validation of a token request raises the validation error when the email is
  absent or empty or the password is absent; otherwise it hands email and password to
  the credential check, raises the not-authenticated error when the check yields no
  user, and returns the attributes with the user attached when it yields one. An empty
  password is a password: it goes to the credential check like any other.
\<close>

theorem token_validate:
  "((attrs ''email'' = None \<or> attrs ''email'' = Some (Str []) \<or> attrs ''password'' = None) \<longrightarrow>
      AuthTokenSerializer_validate authenticate attrs = Inl ValidationError)
   \<and> (\<forall>e pw. attrs ''email'' = Some e \<and> truthy (Some e) \<and> attrs ''password'' = Some pw \<longrightarrow>
        AuthTokenSerializer_validate authenticate attrs =
          (case authenticate e pw of
             None \<Rightarrow> Inl NotAuthenticated
           | Some u \<Rightarrow> Inr (attrs(''user'' \<mapsto> UserObj u))))
   \<and> (\<forall>e. attrs ''email'' = Some e \<and> truthy (Some e) \<and> attrs ''password'' = Some (Str []) \<longrightarrow>
        AuthTokenSerializer_validate authenticate attrs =
          (case authenticate e (Str []) of
             None \<Rightarrow> Inl NotAuthenticated
           | Some u \<Rightarrow> Inr (attrs(''user'' \<mapsto> UserObj u))))"
  by (auto simp: AuthTokenSerializer_validate_def split: option.splits)

text \<open>
  A request without a password, one with the empty password, which the sample
  credential check rejects, and one with the right password.
\<close>

theorem token_validate_witness:
  "AuthTokenSerializer_validate sample_authenticate [''email'' \<mapsto> Str ''user@example.com'']
     = Inl ValidationError
   \<and> AuthTokenSerializer_validate sample_authenticate
       [''email'' \<mapsto> Str ''user@example.com'', ''password'' \<mapsto> Str []]
     = Inl NotAuthenticated
   \<and> AuthTokenSerializer_validate sample_authenticate
       [''email'' \<mapsto> Str ''user@example.com'', ''password'' \<mapsto> Str ''testpass123'']
     = Inr [''email'' \<mapsto> Str ''user@example.com'', ''password'' \<mapsto> Str ''testpass123'',
            ''user'' \<mapsto> UserObj sample_user]"
  using token_validate [of "[''email'' \<mapsto> Str ''user@example.com'']" sample_authenticate]
    token_validate [of "[''email'' \<mapsto> Str ''user@example.com'', ''password'' \<mapsto> Str []]"
      sample_authenticate]
    token_validate [of "[''email'' \<mapsto> Str ''user@example.com'',
      ''password'' \<mapsto> Str ''testpass123'']" sample_authenticate]
  by (simp add: sample_authenticate_def)

end
